theory Spec2Isabelle
  imports Complex_Main
begin

section \<open>AASHTO 1993 structural-number calculator: the numeric core\<close>

text \<open>
  The repository holds two variants of one Streamlit script: \<^verbatim>\<open>SN.py\<close> hands the residual
  of the design equation to a library root finder, \<^verbatim>\<open>SN1.py\<close> evaluates the equation and
  inverts it by bisection. Both share the reliability table and the layer arithmetic.

  Python floats are modelled as \<^typ>\<open>real\<close>: binary rounding, overflow and underflow are
  not part of the model. What numpy does where the real function is undefined is part
  of the model: \<^verbatim>\<open>np.log10\<close> of a non-positive number is a warning, not an exception,
  and returns \<^verbatim>\<open>-inf\<close> or \<^verbatim>\<open>nan\<close>, which then flow through the arithmetic.
\<close>

subsection \<open>numpy scalars\<close>

datatype npfloat = Fin real | PInf | NInf | NaN

text \<open>\<^verbatim>\<open>np.log10(x)\<close> for a Python number \<^verbatim>\<open>x\<close>.\<close>

definition np_log10 :: "real \<Rightarrow> npfloat" where
  "np_log10 x = (if 0 < x then Fin (log 10 x) else if x = 0 then NInf else NaN)"

text \<open>
  \<^verbatim>\<open>x ** y\<close> on numpy values with a finite base: a negative base with the fractional
  exponent of the design equation is \<^verbatim>\<open>nan\<close>.
\<close>

definition np_power :: "real \<Rightarrow> real \<Rightarrow> npfloat" where
  "np_power x y = (if 0 < x then Fin (x powr y) else if x = 0 then Fin 0 else NaN)"

fun np_neg :: "npfloat \<Rightarrow> npfloat" where
  "np_neg (Fin a) = Fin (- a)"
| "np_neg PInf = NInf"
| "np_neg NInf = PInf"
| "np_neg NaN = NaN"

fun np_add :: "npfloat \<Rightarrow> npfloat \<Rightarrow> npfloat" where
  "np_add NaN _ = NaN"
| "np_add _ NaN = NaN"
| "np_add PInf NInf = NaN"
| "np_add NInf PInf = NaN"
| "np_add PInf _ = PInf"
| "np_add _ PInf = PInf"
| "np_add NInf _ = NInf"
| "np_add _ NInf = NInf"
| "np_add (Fin a) (Fin b) = Fin (a + b)"

definition np_sub :: "npfloat \<Rightarrow> npfloat \<Rightarrow> npfloat" where
  "np_sub v w = np_add v (np_neg w)"

text \<open>The sign of an infinite product or quotient: positive exactly when the signs agree.\<close>

definition signed_inf :: "bool \<Rightarrow> npfloat" where
  "signed_inf positive = (if positive then PInf else NInf)"

fun np_mul :: "npfloat \<Rightarrow> npfloat \<Rightarrow> npfloat" where
  "np_mul NaN _ = NaN"
| "np_mul _ NaN = NaN"
| "np_mul (Fin a) (Fin b) = Fin (a * b)"
| "np_mul (Fin a) PInf = (if a = 0 then NaN else signed_inf (0 < a))"
| "np_mul (Fin a) NInf = (if a = 0 then NaN else signed_inf (a < 0))"
| "np_mul PInf (Fin b) = (if b = 0 then NaN else signed_inf (0 < b))"
| "np_mul NInf (Fin b) = (if b = 0 then NaN else signed_inf (b < 0))"
| "np_mul PInf PInf = PInf"
| "np_mul NInf NInf = PInf"
| "np_mul PInf NInf = NInf"
| "np_mul NInf PInf = NInf"

text \<open>
  Division of numpy values. A zero divisor gives an infinity or \<^verbatim>\<open>nan\<close> with a warning;
  the zero is taken as \<^verbatim>\<open>+0.0\<close> (signed zeros are not modelled).
\<close>

fun np_div :: "npfloat \<Rightarrow> npfloat \<Rightarrow> npfloat" where
  "np_div NaN _ = NaN"
| "np_div _ NaN = NaN"
| "np_div (Fin a) (Fin b) =
     (if b \<noteq> 0 then Fin (a / b) else if a = 0 then NaN else signed_inf (0 < a))"
| "np_div (Fin a) PInf = Fin 0"
| "np_div (Fin a) NInf = Fin 0"
| "np_div PInf (Fin b) = signed_inf (0 \<le> b)"
| "np_div NInf (Fin b) = signed_inf (b < 0)"
| "np_div PInf PInf = NaN"
| "np_div PInf NInf = NaN"
| "np_div NInf PInf = NaN"
| "np_div NInf NInf = NaN"

text \<open>\<^verbatim>\<open>10 ** v\<close> for a numpy value \<^verbatim>\<open>v\<close>.\<close>

fun np_pow10 :: "npfloat \<Rightarrow> npfloat" where
  "np_pow10 (Fin a) = Fin (10 powr a)"
| "np_pow10 PInf = PInf"
| "np_pow10 NInf = Fin 0"
| "np_pow10 NaN = NaN"

fun np_abs :: "npfloat \<Rightarrow> npfloat" where
  "np_abs (Fin a) = Fin \<bar>a\<bar>"
| "np_abs PInf = PInf"
| "np_abs NInf = PInf"
| "np_abs NaN = NaN"

text \<open>\<^verbatim>\<open>v < x\<close> for a numpy value and a Python float: false whenever \<^verbatim>\<open>v\<close> is \<^verbatim>\<open>nan\<close>.\<close>

fun np_less :: "npfloat \<Rightarrow> real \<Rightarrow> bool" where
  "np_less (Fin a) x = (a < x)"
| "np_less PInf x = False"
| "np_less NInf x = True"
| "np_less NaN x = False"

subsection \<open>Reliability table (\<^verbatim>\<open>get_zr\<close>, both variants)\<close>

text \<open>
  The dictionary literal of \<^verbatim>\<open>get_zr\<close>. Its keys are the integers 50 to 99 and the float
  99.9; Python looks a key up by numeric equality, so the keys are reals here.
\<close>

definition zr_values :: "(real \<times> real) list" where
  "zr_values =
     [(50, 0.000), (60, - 0.253), (70, - 0.524), (75, - 0.674),
      (80, - 0.841), (85, - 1.037), (90, - 1.282), (95, - 1.645),
      (99, - 2.327), (99.9, - 3.090)]"

text \<open>\<^verbatim>\<open>zr_values.get(reliability, -1.645)\<close>.\<close>

definition get_zr :: "real \<Rightarrow> real" where
  "get_zr reliability =
     (case map_of zr_values reliability of Some z \<Rightarrow> z | None \<Rightarrow> - 1.645)"

subsection \<open>Layer arithmetic of the main script\<close>

text \<open>\<^verbatim>\<open>sn_provided = a1 * d1 + a2 * d2 * m2 + a3 * d3 * m3\<close>.\<close>

definition sn_provided ::
  "real \<Rightarrow> real \<Rightarrow> real \<Rightarrow> real \<Rightarrow> real \<Rightarrow> real \<Rightarrow> real \<Rightarrow> real \<Rightarrow> real" where
  "sn_provided a1 d1 a2 d2 m2 a3 d3 m3 = a1 * d1 + a2 * d2 * m2 + a3 * d3 * m3"

text \<open>\<^verbatim>\<open>difference = sn_provided - sn_solution\<close>, shown as OK when it is not negative.\<close>

definition difference :: "real \<Rightarrow> real \<Rightarrow> real" where
  "difference provided sn_solution = provided - sn_solution"

definition difference_ok :: "real \<Rightarrow> real \<Rightarrow> bool" where
  "difference_ok provided sn_solution = (difference provided sn_solution \<ge> 0)"

text \<open>The branch \<^verbatim>\<open>if sn_provided >= sn_solution\<close> that reports an adequate design.\<close>

definition design_adequate :: "real \<Rightarrow> real \<Rightarrow> bool" where
  "design_adequate provided sn_solution = (provided \<ge> sn_solution)"


text \<open>
  A Python float division, as in the percentage column of the layer breakdown: a zero
  divisor raises \<^verbatim>\<open>ZeroDivisionError\<close>.
\<close>

datatype py_exception = ZeroDivisionError | UnboundLocalError



subsection \<open>The design equation\<close>

text \<open>
  What \<^verbatim>\<open>calculate_w18\<close> hands back: \<^verbatim>\<open>None\<close> from its bare \<^verbatim>\<open>except\<close>, a numpy
  float, or a complex number.
\<close>

datatype calc_outcome = PyNone | Val npfloat | ComplexVal

text \<open>
  \<^verbatim>\<open>calculate_w18\<close> of \<^verbatim>\<open>SN1.py\<close>. Its argument \<^verbatim>\<open>sn\<close> is a Python float, so
  \<^verbatim>\<open>(sn + 1)**5.19\<close> and \<^verbatim>\<open>1094 / ...\<close> are Python operations: the power of a negative
  base with a fractional exponent is a complex number, which makes the result complex
  (no exception), and \<^verbatim>\<open>0.0**5.19\<close> is \<^verbatim>\<open>0.0\<close>, whose use as a divisor raises
  \<^verbatim>\<open>ZeroDivisionError\<close>, caught by the \<^verbatim>\<open>except\<close> that returns \<^verbatim>\<open>None\<close>. The logarithms
  are numpy's and raise nothing.
\<close>

definition calculate_w18 :: "real \<Rightarrow> real \<Rightarrow> real \<Rightarrow> real \<Rightarrow> real \<Rightarrow> calc_outcome" where
  "calculate_w18 sn zr so delta_psi mr =
     (let term1 = Fin (zr * so);
          term2 = np_sub (np_mul (Fin 9.36) (np_log10 (sn + 1))) (Fin 0.20)
      in if sn + 1 < 0 then ComplexVal
         else if sn + 1 = 0 then PyNone
         else
           (let term3 = np_div (np_log10 (delta_psi / (4.2 - 1.5)))
                          (Fin (0.40 + 1094 / (sn + 1) powr 5.19));
                term4 = np_sub (np_mul (Fin 2.32) (np_log10 mr)) (Fin 8.07);
                log_w18 = np_add (np_add (np_add term1 term2) term3) term4;
                w18_calc = np_pow10 log_w18
            in Val w18_calc))"

text \<open>
  \<^verbatim>\<open>aashto_equation\<close> of \<^verbatim>\<open>SN.py\<close>, the residual handed to the root finder, which calls
  it with \<^verbatim>\<open>sn\<close> as a numpy array of one element: every operation is numpy's, nothing
  raises, and the element of the returned array is the value here.
\<close>

definition aashto_equation :: "real \<Rightarrow> real \<Rightarrow> real \<Rightarrow> real \<Rightarrow> real \<Rightarrow> real \<Rightarrow> npfloat" where
  "aashto_equation sn w18 zr so delta_psi mr =
     (let term1 = Fin (zr * so);
          term2 = np_sub (np_mul (Fin 9.36) (np_log10 (sn + 1))) (Fin 0.20);
          term3 = np_div (np_log10 (delta_psi / (4.2 - 1.5)))
                    (np_add (Fin 0.40) (np_div (Fin 1094) (np_power (sn + 1) 5.19)));
          term4 = np_sub (np_mul (Fin 2.32) (np_log10 mr)) (Fin 8.07);
          log_w18_calc = np_add (np_add (np_add term1 term2) term3) term4;
          w18_calc = np_pow10 log_w18_calc
      in np_sub w18_calc (Fin (w18 * 1000000)))"

text \<open>
  The AASHTO 1993 reference formula as the specification writes it, on its domain
  \<open>sn > -1\<close>, \<open>delta_psi > 0\<close>, \<open>mr > 0\<close>.
\<close>

definition reference_log_w18 :: "real \<Rightarrow> real \<Rightarrow> real \<Rightarrow> real \<Rightarrow> real \<Rightarrow> real" where
  "reference_log_w18 sn zr so delta_psi mr =
     zr * so + 9.36 * log 10 (sn + 1) - 0.20
     + log 10 (delta_psi / 2.7) / (0.40 + 1094 / (sn + 1) powr 5.19)
     + 2.32 * log 10 mr - 8.07"

definition reference_w18 :: "real \<Rightarrow> real \<Rightarrow> real \<Rightarrow> real \<Rightarrow> real \<Rightarrow> real" where
  "reference_w18 sn zr so delta_psi mr = 10 powr reference_log_w18 sn zr so delta_psi mr"

subsection \<open>The bisection solver of \<^verbatim>\<open>SN1.py\<close>\<close>

datatype solve_outcome = Returns real | ReturnsNone | Raises py_exception

text \<open>
  The \<^verbatim>\<open>for\<close> loop of \<^verbatim>\<open>solve_for_sn\<close> with the iterations still to run as first
  argument. \<^verbatim>\<open>w18_of\<close> is \<^verbatim>\<open>calculate_w18\<close> at the fixed \<^verbatim>\<open>zr, so, delta_psi, mr\<close>;
  \<^verbatim>\<open>sn_mid\<close> is unbound until the first iteration has run, so leaving the loop without
  one makes the final \<^verbatim>\<open>return sn_mid\<close> raise. The comparisons are numpy's: both are
  false on \<^verbatim>\<open>nan\<close>, and on a complex value with \<^verbatim>\<open>nan\<close> parts, which no midpoint of a
  bracket above \<open>-1\<close> produces.
\<close>

fun bisect ::
  "nat \<Rightarrow> (real \<Rightarrow> calc_outcome) \<Rightarrow> real \<Rightarrow> real \<Rightarrow> real \<Rightarrow> real \<Rightarrow> real option \<Rightarrow> solve_outcome" where
  "bisect 0 w18_of w18_target_units tolerance sn_low sn_high last_mid =
     (case last_mid of None \<Rightarrow> Raises UnboundLocalError | Some sn_mid \<Rightarrow> Returns sn_mid)"
| "bisect (Suc n) w18_of w18_target_units tolerance sn_low sn_high last_mid =
     (let sn_mid = (sn_low + sn_high) / 2 in
      case w18_of sn_mid of
        PyNone \<Rightarrow> ReturnsNone
      | ComplexVal \<Rightarrow> bisect n w18_of w18_target_units tolerance sn_low sn_mid (Some sn_mid)
      | Val w18_calc \<Rightarrow>
          (let error = np_abs (np_sub w18_calc (Fin w18_target_units)) in
           if np_less error (w18_target_units * tolerance) then Returns sn_mid
           else if np_less w18_calc w18_target_units
             then bisect n w18_of w18_target_units tolerance sn_mid sn_high (Some sn_mid)
             else bisect n w18_of w18_target_units tolerance sn_low sn_mid (Some sn_mid)))"

text \<open>\<^verbatim>\<open>range(max_iterations)\<close> is empty for a negative count.\<close>

definition solve_for_sn ::
  "real \<Rightarrow> real \<Rightarrow> real \<Rightarrow> real \<Rightarrow> real \<Rightarrow> real \<Rightarrow> int \<Rightarrow> solve_outcome" where
  "solve_for_sn w18_target zr so delta_psi mr tolerance max_iterations =
     (let w18_target_units = w18_target * 1000000 in
      bisect (nat max_iterations) (\<lambda>sn. calculate_w18 sn zr so delta_psi mr)
        w18_target_units tolerance 0.1 15.0 None)"

text \<open>
  The test of the main script on the solver's result,
  \<^verbatim>\<open>if sn_solution and sn_solution > 0\<close>: the branch that announces the required
  structural number; the other branch reports a failed calculation.
\<close>

definition main_accepts :: "solve_outcome \<Rightarrow> bool" where
  "main_accepts r = (case r of Returns v \<Rightarrow> v \<noteq> 0 \<and> 0 < v | ReturnsNone \<Rightarrow> False | Raises e \<Rightarrow> False)"

subsection \<open>The solver as the specification describes it\<close>

text \<open>
  The specification's result record, and its reading of the iteration: from the bracket
  \<open>[0.1, 15.0]\<close>, each step takes the midpoint, accepts it when the evaluation there is
  within the relative tolerance of the target, and otherwise replaces the low bound by
  the midpoint when the evaluation is below the target and the high bound otherwise. The
  result is the first accepted midpoint among \<open>max_iterations\<close> of them, marked converged,
  or else the last midpoint, marked not converged.
\<close>

record solver_result =
  structural_number :: real
  converged :: bool
  iterations_used :: nat

definition below_target :: "calc_outcome \<Rightarrow> real \<Rightarrow> bool" where
  "below_target w target =
     (case w of Val v \<Rightarrow> np_less v target | PyNone \<Rightarrow> False | ComplexVal \<Rightarrow> False)"

definition meets_tolerance :: "calc_outcome \<Rightarrow> real \<Rightarrow> real \<Rightarrow> bool" where
  "meets_tolerance w target tolerance =
     (case w of
        Val v \<Rightarrow> np_less (np_abs (np_sub v (Fin target))) (target * tolerance)
      | PyNone \<Rightarrow> False
      | ComplexVal \<Rightarrow> False)"

text \<open>
  The sign of \<open>f = evaluate - target\<close>: negative where the evaluation is below the target,
  positive where it is above; \<^verbatim>\<open>nan\<close> is neither. The specification's precondition asks
  for opposite signs at the two ends of the bracket.
\<close>

fun above_target :: "calc_outcome \<Rightarrow> real \<Rightarrow> bool" where
  "above_target (Val (Fin a)) target = (target < a)"
| "above_target (Val PInf) target = True"
| "above_target (Val NInf) target = False"
| "above_target (Val NaN) target = False"
| "above_target PyNone target = False"
| "above_target ComplexVal target = False"

definition opposite_signs :: "calc_outcome \<Rightarrow> calc_outcome \<Rightarrow> real \<Rightarrow> bool" where
  "opposite_signs w_low w_high target =
     (below_target w_low target \<and> above_target w_high target
      \<or> above_target w_low target \<and> below_target w_high target)"

definition midpoint :: "real \<times> real \<Rightarrow> real" where
  "midpoint b = (fst b + snd b) / 2"

definition narrow :: "(real \<Rightarrow> calc_outcome) \<Rightarrow> real \<Rightarrow> real \<times> real \<Rightarrow> real \<times> real" where
  "narrow f target b =
     (if below_target (f (midpoint b)) target then (midpoint b, snd b) else (fst b, midpoint b))"

text \<open>The bracket after \<open>k\<close> narrowing steps, and whether its midpoint is accepted.\<close>

definition bracket_from ::
  "(real \<Rightarrow> calc_outcome) \<Rightarrow> real \<Rightarrow> real \<times> real \<Rightarrow> nat \<Rightarrow> real \<times> real" where
  "bracket_from f target b k = (narrow f target ^^ k) b"

definition accepted_from ::
  "(real \<Rightarrow> calc_outcome) \<Rightarrow> real \<Rightarrow> real \<Rightarrow> real \<times> real \<Rightarrow> nat \<Rightarrow> bool" where
  "accepted_from f target tolerance b k =
     meets_tolerance (f (midpoint (bracket_from f target b k))) target tolerance"

definition spec_solve ::
  "(real \<Rightarrow> calc_outcome) \<Rightarrow> real \<Rightarrow> real \<Rightarrow> nat \<Rightarrow> solver_result" where
  "spec_solve f target tolerance max_iterations =
     (case find (accepted_from f target tolerance (0.1, 15.0)) [0..<max_iterations] of
        Some k \<Rightarrow>
          \<lparr>structural_number = midpoint (bracket_from f target (0.1, 15.0) k),
           converged = True, iterations_used = Suc k\<rparr>
      | None \<Rightarrow>
          \<lparr>structural_number = midpoint (bracket_from f target (0.1, 15.0) (max_iterations - 1)),
           converged = False, iterations_used = max_iterations\<rparr>)"

section \<open>Capacity check\<close>

text \<open>
  Claim C8. For all layer inputs the provided structural number is
  \<open>a1 d1 + a2 d2 m2 + a3 d3 m3\<close>, with no drainage factor on the surface term, the
  design is adequate exactly when the provided number is at least the required one
  (equivalently, when the displayed difference is not negative), and the layers
  \<open>a1 = 0.40, d1 = 4.0, a2 = 0.14, d2 = 6.0, m2 = 1.0, a3 = 0.11, d3 = 8.0, m3 = 1.0\<close>
  give \<open>1.60 + 0.84 + 0.88 = 3.32\<close>.
\<close>

theorem capacity_check_formula:
  "sn_provided a1 d1 a2 d2 m2 a3 d3 m3 = a1 * d1 + a2 * d2 * m2 + a3 * d3 * m3
   \<and> design_adequate (sn_provided a1 d1 a2 d2 m2 a3 d3 m3) required =
       (required \<le> a1 * d1 + a2 * d2 * m2 + a3 * d3 * m3)
   \<and> difference_ok (sn_provided a1 d1 a2 d2 m2 a3 d3 m3) required =
       design_adequate (sn_provided a1 d1 a2 d2 m2 a3 d3 m3) required
   \<and> sn_provided 0.40 4.0 0.14 6.0 1.0 0.11 8.0 1.0 = 1.60 + 0.84 + 0.88
   \<and> sn_provided 0.40 4.0 0.14 6.0 1.0 0.11 8.0 1.0 = 3.32"
  by (simp add: sn_provided_def design_adequate_def difference_ok_def difference_def)

section \<open>Reliability lookup\<close>

text \<open>
  Claim C7. A reliability that is not a key of the table must not be answered with a
  silent default. The lookup does answer with one: 51 is not a key, and \<open>get_zr 51\<close> is
  the deviate of 95 percent.
\<close>

theorem get_zr_untabulated_default:
  "51 \<notin> fst ` set zr_values \<and> get_zr 51 = - 1.645 \<and> get_zr 51 = get_zr 95"
  by (simp add: get_zr_def zr_values_def)


section \<open>Layer contribution percentages\<close>





section \<open>The design equation\<close>

lemma denominator_pos: "0 < x \<Longrightarrow> 0 < 0.40 + 1094 / x powr 5.19" for x :: real
  by (simp add: add_pos_nonneg)

lemma calculate_w18_in_domain:
  assumes "- 1 < sn" and "0 < delta_psi" and "0 < mr"
  shows "calculate_w18 sn zr so delta_psi mr = Val (Fin (reference_w18 sn zr so delta_psi mr))"
proof -
  have d: "0.40 + 1094 / (sn + 1) powr 5.19 \<noteq> 0"
    using denominator_pos [of "sn + 1"] assms(1) by simp
  show ?thesis
    using assms d
    by (simp add: calculate_w18_def reference_w18_def reference_log_w18_def np_log10_def
        np_sub_def Let_def)
qed

lemma calculate_w18_is_val: "- 1 < sn \<Longrightarrow> \<exists>v. calculate_w18 sn zr so delta_psi mr = Val v"
  by (simp add: calculate_w18_def Let_def)

lemma aashto_equation_in_domain:
  assumes "- 1 < sn" and "0 < delta_psi" and "0 < mr"
  shows "aashto_equation sn w18 zr so delta_psi mr
       = Fin (reference_w18 sn zr so delta_psi mr - w18 * 1000000)"
proof -
  have d: "0.40 + 1094 / (sn + 1) powr 5.19 \<noteq> 0"
    using denominator_pos [of "sn + 1"] assms(1) by simp
  show ?thesis
    using assms d
    by (simp add: aashto_equation_def reference_w18_def reference_log_w18_def np_log10_def
        np_power_def np_sub_def Let_def)
qed

text \<open>
  Claim C2. For \<open>sn > -1\<close>, \<open>delta_psi > 0\<close>, \<open>mr > 0\<close> and any \<open>zr\<close>, \<open>so\<close>, the evaluator
  returns the AASHTO 1993 reference value
  \<open>10 ^ (zr so + 9.36 log10 (sn + 1) - 0.20
        + log10 (delta_psi / 2.7) / (0.40 + 1094 / (sn + 1) ^ 5.19) + 2.32 log10 mr - 8.07)\<close>,
  a traffic in axle loads, not in millions; the residual of \<^verbatim>\<open>SN.py\<close> is that value minus
  the target in axle loads.
\<close>

theorem calculate_w18_reference:
  assumes "- 1 < sn" and "0 < delta_psi" and "0 < mr"
  shows "calculate_w18 sn zr so delta_psi mr = Val (Fin (reference_w18 sn zr so delta_psi mr))
    \<and> aashto_equation sn w18 zr so delta_psi mr
        = Fin (reference_w18 sn zr so delta_psi mr - w18 * 1000000)
    \<and> reference_w18 sn zr so delta_psi mr =
        10 powr (zr * so + 9.36 * log 10 (sn + 1) - 0.20
                 + log 10 (delta_psi / 2.7) / (0.40 + 1094 / (sn + 1) powr 5.19)
                 + 2.32 * log 10 mr - 8.07)"
  using calculate_w18_in_domain [OF assms] aashto_equation_in_domain [OF assms]
  by (simp add: reference_w18_def reference_log_w18_def)

text \<open>Claim C2 at the scenario of the specification, with structural number 5.\<close>

theorem calculate_w18_reference_witness:
  "(- 1::real) < 5 \<and> (0::real) < 2 \<and> (0::real) < 7500
   \<and> calculate_w18 5 (- 1.645) 0.45 2 7500 = Val (Fin (reference_w18 5 (- 1.645) 0.45 2 7500))
   \<and> aashto_equation 5 5 (- 1.645) 0.45 2 7500
        = Fin (reference_w18 5 (- 1.645) 0.45 2 7500 - 5 * 1000000)
   \<and> reference_w18 5 (- 1.645) 0.45 2 7500 =
        10 powr (- 1.645 * 0.45 + 9.36 * log 10 (5 + 1) - 0.20
                 + log 10 (2 / 2.7) / (0.40 + 1094 / (5 + 1) powr 5.19)
                 + 2.32 * log 10 7500 - 8.07)"
  using calculate_w18_reference [of 5 2 7500 "- 1.645" "0.45" 5] by simp

text \<open>
  Claim C10. On the same domain the residual of \<^verbatim>\<open>SN.py\<close> is the evaluation of
  \<^verbatim>\<open>SN1.py\<close> minus the target traffic converted from millions.
\<close>

theorem aashto_equation_residual:
  assumes "- 1 < sn" and "0 < delta_psi" and "0 < mr"
  shows "\<exists>w. calculate_w18 sn zr so delta_psi mr = Val (Fin w)
     \<and> aashto_equation sn w18 zr so delta_psi mr = Fin (w - w18 * 1000000)"
  using calculate_w18_in_domain [OF assms] aashto_equation_in_domain [OF assms]
  by simp

text \<open>Claim C10 at the initial guess of the root finder, \<open>sn = 3\<close>, for 5 million axle loads.\<close>

theorem aashto_equation_residual_witness:
  "(- 1::real) < 3 \<and> (0::real) < 2 \<and> (0::real) < 7500
   \<and> (\<exists>w. calculate_w18 3 (- 1.645) 0.45 2 7500 = Val (Fin w)
        \<and> aashto_equation 3 5 (- 1.645) 0.45 2 7500 = Fin (w - 5 * 1000000))"
  using aashto_equation_residual [of 3 2 7500 "- 1.645" "0.45" 5] by simp

text \<open>
  Claim C6. Outside its domain the evaluator must signal an error. It does so where an
  exception is raised, as at \<open>sn = -1\<close>, where the zero divisor is caught and \<^verbatim>\<open>None\<close>
  returned, which the solver hands on and the main script reports as a failed
  calculation. With
  \<open>delta_psi = 0\<close> (initial and terminal serviceability both 3.0 in the form) it returns
  the number 0, and with a negative \<open>delta_psi\<close> it returns \<^verbatim>\<open>nan\<close>: numpy's logarithm
  raises nothing, so the handler never runs.
\<close>

theorem calculate_w18_zero_delta_psi:
  "calculate_w18 7.55 (- 1.645) 0.45 0 7500 = Val (Fin 0)
   \<and> calculate_w18 7.55 (- 1.645) 0.45 (- 1) 7500 = Val NaN
   \<and> calculate_w18 (- 1) (- 1.645) 0.45 2 7500 = PyNone"
proof -
  have d: "\<not> (0.40 + 1094 / (855 / 100) powr 5.19 < (0::real))"
    using denominator_pos [of "855 / 100"] by simp
  show ?thesis
    using d
    by (simp add: calculate_w18_def np_log10_def np_sub_def signed_inf_def Let_def)
qed

section \<open>The bisection solver\<close>

subsection \<open>The loop against the specification's reading\<close>

lemma find_map_option: "find P (map g xs) = map_option g (find (P \<circ> g) xs)"
  by (induction xs) auto

lemma find_upt_Suc:
  "find P [0..<Suc n] = (if P 0 then Some 0 else map_option Suc (find (P \<circ> Suc) [0..<n]))"
proof -
  have "[0..<Suc n] = 0 # map Suc [0..<n]"
    by (simp add: upt_conv_Cons map_Suc_upt del: upt_Suc)
  then show ?thesis
    by (simp add: find_map_option del: upt_Suc)
qed

lemma find_upt_first: "0 < n \<Longrightarrow> P 0 \<Longrightarrow> find P [0..<n] = Some 0"
  by (cases n) (simp_all add: find_upt_Suc del: upt_Suc)

lemma bracket_from_0: "bracket_from f target b 0 = b"
  by (simp add: bracket_from_def)

lemma bracket_from_Suc:
  "bracket_from f target b (Suc k) = bracket_from f target (narrow f target b) k"
  by (simp add: bracket_from_def funpow_swap1)

lemma narrow_inside:
  assumes "fst b \<le> snd b"
  shows "fst b \<le> fst (narrow f target b)" and "snd (narrow f target b) \<le> snd b"
    and "fst (narrow f target b) \<le> snd (narrow f target b)"
  using assms by (auto simp: narrow_def midpoint_def)

lemma bracket_from_inside:
  assumes "fst b \<le> snd b"
  shows "fst b \<le> fst (bracket_from f target b k) \<and> snd (bracket_from f target b k) \<le> snd b
     \<and> fst (bracket_from f target b k) \<le> snd (bracket_from f target b k)"
  using assms
proof (induction k arbitrary: b)
  case 0
  then show ?case by (simp add: bracket_from_0)
next
  case (Suc k)
  have n: "fst b \<le> fst (narrow f target b)" "snd (narrow f target b) \<le> snd b"
    "fst (narrow f target b) \<le> snd (narrow f target b)"
    using narrow_inside [OF Suc.prems] by blast+
  show ?case
    using Suc.IH [OF n(3)] n by (simp add: bracket_from_Suc)
qed

lemma bracket_from_strict:
  assumes "fst b < snd b"
  shows "fst (bracket_from f target b k) < snd (bracket_from f target b k)"
  using assms
proof (induction k arbitrary: b)
  case 0
  then show ?case by (simp add: bracket_from_0)
next
  case (Suc k)
  have "fst (narrow f target b) < snd (narrow f target b)"
    using Suc.prems by (simp add: narrow_def midpoint_def)
  then show ?case
    using Suc.IH by (simp add: bracket_from_Suc)
qed

lemma midpoint_strictly_inside:
  assumes "fst b < snd b"
  shows "fst b < midpoint (bracket_from f target b k)
     \<and> midpoint (bracket_from f target b k) < snd b"
proof -
  have "fst b \<le> fst (bracket_from f target b k)" "snd (bracket_from f target b k) \<le> snd b"
    using bracket_from_inside [of b f target k] assms by simp_all
  moreover have "fst (bracket_from f target b k) < snd (bracket_from f target b k)"
    using bracket_from_strict [OF assms] .
  ultimately show ?thesis
    by (simp add: midpoint_def)
qed

text \<open>
  The loop returns the first accepted midpoint, and the last one when none is accepted,
  on any bracket where the evaluator returns numpy values.
\<close>

lemma bisect_find:
  assumes "\<And>x. fst b \<le> x \<Longrightarrow> x \<le> snd b \<Longrightarrow> \<exists>v. f x = Val v" and "fst b \<le> snd b"
  shows "bisect n f target tolerance (fst b) (snd b) last_mid =
    (case find (accepted_from f target tolerance b) [0..<n] of
       Some k \<Rightarrow> Returns (midpoint (bracket_from f target b k))
     | None \<Rightarrow>
        (case n of
           0 \<Rightarrow> (case last_mid of None \<Rightarrow> Raises UnboundLocalError | Some m \<Rightarrow> Returns m)
         | Suc j \<Rightarrow> Returns (midpoint (bracket_from f target b j))))"
  using assms
proof (induction n arbitrary: b last_mid)
  case 0
  show ?case by simp
next
  case (Suc n)
  let ?m = "midpoint b"
  have m: "fst b \<le> ?m" "?m \<le> snd b"
    using Suc.prems(2) by (simp_all add: midpoint_def)
  then obtain v where v: "f ?m = Val v"
    using Suc.prems(1) by blast
  have acc0: "accepted_from f target tolerance b 0 =
      np_less (np_abs (np_sub v (Fin target))) (target * tolerance)"
    by (simp add: accepted_from_def bracket_from_0 meets_tolerance_def v)
  have shift: "accepted_from f target tolerance b \<circ> Suc
      = accepted_from f target tolerance (narrow f target b)"
    by (rule ext) (simp add: accepted_from_def bracket_from_Suc)
  show ?case
  proof (cases "np_less (np_abs (np_sub v (Fin target))) (target * tolerance)")
    case True
    then show ?thesis
      using v acc0 by (simp add: find_upt_Suc midpoint_def bracket_from_0 Let_def del: upt_Suc)
  next
    case False
    let ?b' = "narrow f target b"
    have inside: "fst b \<le> fst ?b'" "snd ?b' \<le> snd b" "fst ?b' \<le> snd ?b'"
      using narrow_inside [OF Suc.prems(2)] by blast+
    have vals: "\<And>x. fst ?b' \<le> x \<Longrightarrow> x \<le> snd ?b' \<Longrightarrow> \<exists>v. f x = Val v"
      using Suc.prems(1) inside by (meson order_trans)
    have IH: "bisect n f target tolerance (fst ?b') (snd ?b') (Some ?m) =
      (case find (accepted_from f target tolerance ?b') [0..<n] of
         Some k \<Rightarrow> Returns (midpoint (bracket_from f target ?b' k))
       | None \<Rightarrow>
          (case n of
             0 \<Rightarrow> Returns ?m
           | Suc j \<Rightarrow> Returns (midpoint (bracket_from f target ?b' j))))"
      using Suc.IH [OF vals inside(3), of "Some ?m"]
      by (simp split: option.splits nat.splits)
    have step: "bisect (Suc n) f target tolerance (fst b) (snd b) last_mid =
        bisect n f target tolerance (fst ?b') (snd ?b') (Some ?m)"
      using v False
      by (simp add: narrow_def below_target_def midpoint_def Let_def)
    show ?thesis
      unfolding step IH
      using False acc0
      by (cases n)
         (auto simp: find_upt_Suc shift bracket_from_0 bracket_from_Suc
               simp del: upt_Suc split: option.splits)
  qed
qed

lemma solve_for_sn_find:
  "solve_for_sn w18_target zr so delta_psi mr tolerance max_iterations =
    (case find (accepted_from (\<lambda>sn. calculate_w18 sn zr so delta_psi mr) (w18_target * 1000000)
                  tolerance (0.1, 15.0)) [0..<nat max_iterations] of
       Some k \<Rightarrow> Returns (midpoint (bracket_from (\<lambda>sn. calculate_w18 sn zr so delta_psi mr)
                             (w18_target * 1000000) (0.1, 15.0) k))
     | None \<Rightarrow>
        (case nat max_iterations of
           0 \<Rightarrow> Raises UnboundLocalError
         | Suc j \<Rightarrow> Returns (midpoint (bracket_from (\<lambda>sn. calculate_w18 sn zr so delta_psi mr)
                                 (w18_target * 1000000) (0.1, 15.0) j))))"
proof -
  have vals: "\<And>x. fst (0.1::real, 15.0::real) \<le> x \<Longrightarrow> x \<le> snd (0.1::real, 15.0::real)
      \<Longrightarrow> \<exists>v. calculate_w18 x zr so delta_psi mr = Val v"
    by (rule calculate_w18_is_val) simp
  have ord: "fst (0.1::real, 15.0::real) \<le> snd (0.1::real, 15.0::real)"
    by simp
  show ?thesis
    using bisect_find [of "(0.1, 15.0)" "\<lambda>sn. calculate_w18 sn zr so delta_psi mr", OF vals ord,
        of "nat max_iterations" "w18_target * 1000000" tolerance None]
    by (simp add: solve_for_sn_def Let_def split: option.splits nat.splits)
qed

lemma spec_solve_all_rejected:
  assumes "\<And>x. 0.1 \<le> x \<Longrightarrow> x \<le> 15 \<Longrightarrow> \<not> meets_tolerance (f x) target tolerance"
  shows "\<not> converged (spec_solve f target tolerance n)"
proof -
  have "\<not> accepted_from f target tolerance (0.1, 15.0) k" for k
  proof -
    have "0.1 < midpoint (bracket_from f target (0.1, 15.0) k)
        \<and> midpoint (bracket_from f target (0.1, 15.0) k) < 15"
      using midpoint_strictly_inside [of "(0.1, 15.0)" f target k] by simp
    then show ?thesis
      using assms by (simp add: accepted_from_def)
  qed
  then have "find (accepted_from f target tolerance (0.1, 15.0)) [0..<n] = None"
    by (simp add: find_None_iff)
  then show ?thesis
    by (simp add: spec_solve_def)
qed

lemma accepted_round_trip:
  assumes "meets_tolerance w target tolerance"
  shows "\<exists>a. w = Val (Fin a) \<and> \<bar>a - target\<bar> < target * tolerance"
proof (cases w)
  case (Val v)
  then show ?thesis
    using assms by (cases v) (simp_all add: meets_tolerance_def np_sub_def)
qed (use assms in \<open>simp_all add: meets_tolerance_def\<close>)

subsection \<open>A loop that never meets the tolerance from below\<close>

lemma bisect_all_below:
  assumes "\<And>x. lo \<le> x \<Longrightarrow> x \<le> hi \<Longrightarrow>
             \<exists>w. f x = Val (Fin w) \<and> w < target \<and> \<not> \<bar>w - target\<bar> < target * tolerance"
    and "lo \<le> hi"
  shows "bisect (Suc n) f target tolerance lo hi last_mid = Returns (hi - (hi - lo) / 2 ^ Suc n)"
  using assms
proof (induction n arbitrary: lo last_mid)
  case 0
  have "lo \<le> (lo + hi) / 2" "(lo + hi) / 2 \<le> hi"
    using "0.prems"(2) by simp_all
  then obtain w where "f ((lo + hi) / 2) = Val (Fin w)" "w < target"
      "\<not> \<bar>w - target\<bar> < target * tolerance"
    using "0.prems"(1) by blast
  then show ?case
    by (simp add: np_sub_def Let_def field_simps)
next
  case (Suc n)
  let ?m = "(lo + hi) / 2"
  have m: "lo \<le> ?m" "?m \<le> hi"
    using Suc.prems(2) by simp_all
  then obtain w where w: "f ?m = Val (Fin w)" "w < target"
      "\<not> \<bar>w - target\<bar> < target * tolerance"
    using Suc.prems(1) by blast
  have below: "\<And>x. ?m \<le> x \<Longrightarrow> x \<le> hi \<Longrightarrow>
             \<exists>w. f x = Val (Fin w) \<and> w < target \<and> \<not> \<bar>w - target\<bar> < target * tolerance"
    using Suc.prems(1) m(1) by (meson order_trans)
  have "bisect (Suc (Suc n)) f target tolerance lo hi last_mid =
      bisect (Suc n) f target tolerance ?m hi (Some ?m)"
    using w by (simp add: np_sub_def Let_def)
  also have "\<dots> = Returns (hi - (hi - ?m) / 2 ^ Suc n)"
    using Suc.IH [OF below m(2)] .
  also have "hi - (hi - ?m) / 2 ^ Suc n = hi - (hi - lo) / 2 ^ Suc (Suc n)"
    by (simp add: field_simps)
  finally show ?case .
qed

lemma log10_16_upper: "log 10 (16::real) \<le> 1.21"
proof -
  have "100 * log 10 (16::real) = log 10 (16 ^ 100)"
    using log_nat_power [of 16 10 100] by simp
  also have "\<dots> \<le> log 10 (10 ^ 121)"
    by (subst log_le_cancel_iff) simp_all
  also have "\<dots> = 121"
    by (simp only: log_nat_power) simp
  finally show ?thesis by simp
qed

text \<open>
  With a serviceability loss of at most 2.7 the serviceability term is not positive, so
  over the bracket the exponent stays below the value of the remaining terms at \<open>sn = 15\<close>.
\<close>

lemma reference_log_w18_upper:
  assumes "0.1 \<le> sn" and "sn \<le> 15" and "0 < delta_psi" and "delta_psi \<le> 2.7"
  shows "reference_log_w18 sn zr so delta_psi mr
       \<le> zr * so + 9.36 * 1.21 - 0.20 + 2.32 * log 10 mr - 8.07"
proof -
  have "log 10 (sn + 1) \<le> log 10 16"
    using assms(1,2) by (subst log_le_cancel_iff) simp_all
  then have l: "log 10 (sn + 1) \<le> 1.21"
    using log10_16_upper by linarith
  have "log 10 (delta_psi / 2.7) \<le> log 10 1"
    using assms(3,4) by (subst log_le_cancel_iff) simp_all
  then have "log 10 (delta_psi / 2.7) \<le> 0"
    by simp
  moreover have "0 < 0.40 + 1094 / (sn + 1) powr 5.19"
    using denominator_pos [of "sn + 1"] assms(1) by simp
  ultimately have q: "log 10 (delta_psi / 2.7) / (0.40 + 1094 / (sn + 1) powr 5.19) \<le> 0"
    by (simp add: divide_nonpos_pos)
  have "9.36 * log 10 (sn + 1) \<le> 9.36 * 1.21"
    using l by simp
  then show ?thesis
    unfolding reference_log_w18_def using q by linarith
qed

lemma powr10_upper:
  assumes "10 ^ k \<le> (c::real) ^ 10" and "0 < c" and "e * 10 \<le> real k"
  shows "10 powr e \<le> c"
proof -
  have "real k = log 10 ((10::real) ^ k)"
    by (simp only: log_nat_power) simp
  also have "\<dots> \<le> log 10 (c ^ 10)"
    using assms(1,2) by (subst log_le_cancel_iff) simp_all
  also have "\<dots> = 10 * log 10 c"
    using assms(2) log_nat_power [of c 10 10] by simp
  finally have "real k \<le> 10 * log 10 c" .
  then have "e \<le> log 10 c"
    using assms(3) by linarith
  then show ?thesis
    using assms(2) by (simp add: powr_le_iff)
qed

text \<open>
  A million million axle loads with the default inputs of the form: every evaluation
  over the bracket stays more than one percent below the target.
\<close>

lemma exhausted_example_below:
  assumes "0.1 \<le> x" and "x \<le> 15"
  shows "\<exists>w. calculate_w18 x (- 1.645) 0.45 2 7500 = Val (Fin w) \<and> w < 1000000 * 1000000
     \<and> \<not> \<bar>w - 1000000 * 1000000\<bar> < 1000000 * 1000000 * 0.01"
proof -
  have "log 10 (7500::real) \<le> log 10 (10 ^ 4)"
    by (subst log_le_cancel_iff) simp_all
  also have "\<dots> = 4"
    using log_nat_power [of 10 10 4] by simp
  finally have l: "log 10 (7500::real) \<le> 4" .
  have "reference_log_w18 x (- 1.645) 0.45 2 7500
      \<le> - 1.645 * 0.45 + 9.36 * 1.21 - 0.20 + 2.32 * log 10 7500 - 8.07"
    using reference_log_w18_upper [OF assms, of 2 "- 1.645" "0.45" 7500] by simp
  also have "\<dots> \<le> 11.6"
    using l by simp
  finally have "reference_w18 x (- 1.645) 0.45 2 7500 \<le> 10 powr 11.6"
    by (simp add: reference_w18_def)
  also have "(10::real) powr 11.6 \<le> 990000000000"
    by (rule powr10_upper [where k = 116]) simp_all
  finally have w: "reference_w18 x (- 1.645) 0.45 2 7500 \<le> 990000000000" .
  have "calculate_w18 x (- 1.645) 0.45 2 7500 = Val (Fin (reference_w18 x (- 1.645) 0.45 2 7500))"
    using assms by (intro calculate_w18_in_domain) simp_all
  then show ?thesis
    using w by simp
qed

text \<open>
  The boundary case of the specification, a thousand million axle loads, with
  reliability 99, deviation 0.5, serviceability loss 2 and modulus 1000.
\<close>

lemma no_root_example_below:
  assumes "0.1 \<le> x" and "x \<le> 15"
  shows "\<exists>w. calculate_w18 x (- 2.327) 0.5 2 1000 = Val (Fin w) \<and> w < 1000 * 1000000
     \<and> \<not> \<bar>w - 1000 * 1000000\<bar> < 1000 * 1000000 * 0.01"
proof -
  have "log 10 (1000::real) = log 10 (10 ^ 3)" by simp
  also have "\<dots> = 3" by (simp only: log_nat_power) simp
  finally have l3: "log 10 (1000::real) = 3" .
  have "reference_log_w18 x (- 2.327) 0.5 2 1000 \<le> 8.9"
    using reference_log_w18_upper [OF assms, of 2 "- 2.327" "0.5" 1000] l3 by simp
  then have "reference_w18 x (- 2.327) 0.5 2 1000 \<le> 10 powr 8.9"
    by (simp add: reference_w18_def)
  also have "(10::real) powr 8.9 \<le> 990000000"
    by (rule powr10_upper [where k = 89]) simp_all
  finally have w: "reference_w18 x (- 2.327) 0.5 2 1000 \<le> 990000000" .
  have "calculate_w18 x (- 2.327) 0.5 2 1000 = Val (Fin (reference_w18 x (- 2.327) 0.5 2 1000))"
    using assms by (intro calculate_w18_in_domain) simp_all
  then show ?thesis
    using w by simp
qed

subsection \<open>The claims about the solver\<close>

text \<open>
  Claim C1, as the code behaves. With the default tolerance 0.01 and 100 iterations,
  for every target and every \<open>zr\<close>, \<open>so\<close>, \<open>delta_psi\<close>, \<open>mr\<close>, the solver multiplies the
  target by 1,000,000, starts from the bracket \<open>[0.1, 15.0]\<close> and returns the structural
  number that the specification's iteration yields: the first midpoint whose evaluation
  is within the tolerance of the target, the bracket being narrowed to the upper half
  when the evaluation is below the target and to the lower half otherwise, or the last
  midpoint when all 100 are rejected. The value returned is the bare number in both
  cases; no convergence flag comes with it.
\<close>

theorem solve_for_sn_bisection:
  "solve_for_sn w18_target zr so delta_psi mr 0.01 100 =
     Returns (structural_number
       (spec_solve (\<lambda>sn. calculate_w18 sn zr so delta_psi mr) (w18_target * 1000000) 0.01 100))"
  by (simp add: solve_for_sn_find spec_solve_def split: option.splits)

text \<open>
  Claim C1 as stated fails on the mark of non-convergence. For a million million axle
  loads with the default inputs no midpoint is accepted, so the specification's result is
  not converged; the solver returns the last midpoint as a plain number, and the main
  script takes it for the required structural number.
\<close>

theorem solve_for_sn_exhausted_unmarked:
  "\<not> converged (spec_solve (\<lambda>sn. calculate_w18 sn (- 1.645) 0.45 2 7500)
                  (1000000 * 1000000) 0.01 100)
   \<and> solve_for_sn 1000000 (- 1.645) 0.45 2 7500 0.01 100 = Returns (15.0 - 14.9 / 2 ^ 100)
   \<and> main_accepts (solve_for_sn 1000000 (- 1.645) 0.45 2 7500 0.01 100)"
proof -
  have rej: "\<not> meets_tolerance (calculate_w18 x (- 1.645) 0.45 2 7500) (1000000 * 1000000) 0.01"
    if "0.1 \<le> x" "x \<le> 15" for x
    using exhausted_example_below [OF that] by (auto simp: meets_tolerance_def np_sub_def)
  have nc: "\<not> converged (spec_solve (\<lambda>sn. calculate_w18 sn (- 1.645) 0.45 2 7500)
                  (1000000 * 1000000) 0.01 100)"
    by (rule spec_solve_all_rejected) (use rej in simp)
  have "bisect (Suc 99) (\<lambda>sn. calculate_w18 sn (- 1.645) 0.45 2 7500) (1000000 * 1000000)
          0.01 0.1 15.0 None
      = Returns (15.0 - (15.0 - 0.1) / 2 ^ Suc 99)"
    by (rule bisect_all_below) (use exhausted_example_below in simp_all)
  then have r: "solve_for_sn 1000000 (- 1.645) 0.45 2 7500 0.01 100 = Returns (15.0 - 14.9 / 2 ^ 100)"
    by (simp add: solve_for_sn_def)
  have "main_accepts (Returns (15.0 - 14.9 / 2 ^ 100))"
    by (simp add: main_accepts_def)
  with nc r show ?thesis by simp
qed

text \<open>
  Claim C3. For valid inputs on which the iteration converges, the solver returns a
  structural number whose evaluation is a finite traffic within the relative tolerance
  of the target in axle loads.
\<close>

theorem solve_for_sn_round_trip:
  assumes "0 < delta_psi" and "0 < mr"
    and "converged (spec_solve (\<lambda>sn. calculate_w18 sn zr so delta_psi mr)
                      (w18_target * 1000000) tolerance (nat max_iterations))"
  shows "\<exists>sn w. solve_for_sn w18_target zr so delta_psi mr tolerance max_iterations = Returns sn
     \<and> calculate_w18 sn zr so delta_psi mr = Val (Fin w)
     \<and> \<bar>w - w18_target * 1000000\<bar> < w18_target * 1000000 * tolerance"
proof -
  let ?f = "\<lambda>sn. calculate_w18 sn zr so delta_psi mr"
  let ?T = "w18_target * 1000000"
  obtain k where k: "find (accepted_from ?f ?T tolerance (0.1, 15.0)) [0..<nat max_iterations] = Some k"
    using assms(3) by (auto simp: spec_solve_def split: option.splits)
  then have "accepted_from ?f ?T tolerance (0.1, 15.0) k"
    by (auto simp: find_Some_iff)
  then have "meets_tolerance (?f (midpoint (bracket_from ?f ?T (0.1, 15.0) k))) ?T tolerance"
    by (simp add: accepted_from_def)
  from accepted_round_trip [OF this] k show ?thesis
    by (simp add: solve_for_sn_find)
qed

text \<open>
  Claim C3 where the target is the traffic that the first midpoint, 7.55, carries with the
  default inputs: the first iteration converges.
\<close>

theorem solve_for_sn_round_trip_witness:
  "(0::real) < 2 \<and> (0::real) < 7500
   \<and> converged (spec_solve (\<lambda>sn. calculate_w18 sn (- 1.645) 0.45 2 7500)
        (reference_w18 7.55 (- 1.645) 0.45 2 7500 / 1000000 * 1000000) 0.01 (nat 100))
   \<and> (\<exists>sn w. solve_for_sn (reference_w18 7.55 (- 1.645) 0.45 2 7500 / 1000000)
                 (- 1.645) 0.45 2 7500 0.01 100 = Returns sn
        \<and> calculate_w18 sn (- 1.645) 0.45 2 7500 = Val (Fin w)
        \<and> \<bar>w - reference_w18 7.55 (- 1.645) 0.45 2 7500 / 1000000 * 1000000\<bar>
            < reference_w18 7.55 (- 1.645) 0.45 2 7500 / 1000000 * 1000000 * 0.01)"
proof -
  let ?f = "\<lambda>sn. calculate_w18 sn (- 1.645) 0.45 2 7500"
  let ?T = "reference_w18 7.55 (- 1.645) 0.45 2 7500 / 1000000 * 1000000"
  have T: "?T = reference_w18 7.55 (- 1.645) 0.45 2 7500" by simp
  have pos: "0 < reference_w18 7.55 (- 1.645) 0.45 2 7500"
    by (simp add: reference_w18_def)
  have v: "?f 7.55 = Val (Fin (reference_w18 7.55 (- 1.645) 0.45 2 7500))"
    by (intro calculate_w18_in_domain) simp_all
  have "accepted_from ?f ?T 0.01 (0.1, 15.0) 0"
    unfolding T using pos v
    by (simp add: accepted_from_def bracket_from_0 midpoint_def meets_tolerance_def np_sub_def)
  then have "find (accepted_from ?f ?T 0.01 (0.1, 15.0)) [0..<nat 100] = Some 0"
    by (intro find_upt_first) simp_all
  then have c: "converged (spec_solve ?f ?T 0.01 (nat 100))"
    by (simp add: spec_solve_def)
  have d: "(0::real) < 2" and m: "(0::real) < 7500" by simp_all
  show ?thesis
    using solve_for_sn_round_trip [OF d m c] c by simp
qed

text \<open>
  Claim C5, as the code behaves. The solver never inspects the signs at the ends of the
  bracket. When they are not opposite it reports nothing: run for at least one
  iteration, it returns a midpoint as for any other input, the one the specification's
  iteration yields (the first midpoint within the tolerance, else the last), and the
  main script takes that number for the required structural number.
\<close>

theorem solve_for_sn_same_sign_returns_value:
  assumes "0 < max_iterations"
    and "\<not> opposite_signs (calculate_w18 0.1 zr so delta_psi mr)
             (calculate_w18 15.0 zr so delta_psi mr) (w18_target * 1000000)"
  shows "solve_for_sn w18_target zr so delta_psi mr tolerance max_iterations =
       Returns (structural_number
         (spec_solve (\<lambda>sn. calculate_w18 sn zr so delta_psi mr) (w18_target * 1000000)
            tolerance (nat max_iterations)))
     \<and> main_accepts (solve_for_sn w18_target zr so delta_psi mr tolerance max_iterations)"
proof -
  let ?f = "\<lambda>sn. calculate_w18 sn zr so delta_psi mr"
  let ?T = "w18_target * 1000000"
  obtain j where j: "nat max_iterations = Suc j"
    using assms(1) by (cases "nat max_iterations") auto
  have eq: "solve_for_sn w18_target zr so delta_psi mr tolerance max_iterations =
      Returns (structural_number (spec_solve ?f ?T tolerance (nat max_iterations)))"
    by (simp add: solve_for_sn_find spec_solve_def j split: option.splits)
  have mid: "0.1 < midpoint (bracket_from ?f ?T (0.1, 15.0) k)" for k
    using midpoint_strictly_inside [of "(0.1, 15.0)" ?f ?T k] by simp
  have "0.1 < structural_number (spec_solve ?f ?T tolerance (nat max_iterations))"
    using mid by (simp add: spec_solve_def split: option.splits)
  then have "main_accepts
      (Returns (structural_number (spec_solve ?f ?T tolerance (nat max_iterations))))"
    by (simp add: main_accepts_def)
  with eq show ?thesis by simp
qed

text \<open>
  Claim C5 as amended, at the boundary case of the specification: a thousand million axle
  loads with reliability 99, deviation 0.5, serviceability loss 2 and modulus 1000.
\<close>

theorem solve_for_sn_same_sign_returns_value_witness:
  "(0::int) < 100
   \<and> \<not> opposite_signs (calculate_w18 0.1 (- 2.327) 0.5 2 1000)
         (calculate_w18 15.0 (- 2.327) 0.5 2 1000) (1000 * 1000000)
   \<and> solve_for_sn 1000 (- 2.327) 0.5 2 1000 0.01 100 =
       Returns (structural_number
         (spec_solve (\<lambda>sn. calculate_w18 sn (- 2.327) 0.5 2 1000) (1000 * 1000000) 0.01 (nat 100)))
   \<and> main_accepts (solve_for_sn 1000 (- 2.327) 0.5 2 1000 0.01 100)"
proof -
  have n: "(0::int) < 100" by simp
  have "\<not> above_target (calculate_w18 0.1 (- 2.327) 0.5 2 1000) (1000 * 1000000)"
    using no_root_example_below [of "0.1"] by auto
  moreover have "\<not> above_target (calculate_w18 15.0 (- 2.327) 0.5 2 1000) (1000 * 1000000)"
    using no_root_example_below [of "15.0"] by auto
  ultimately have s: "\<not> opposite_signs (calculate_w18 0.1 (- 2.327) 0.5 2 1000)
         (calculate_w18 15.0 (- 2.327) 0.5 2 1000) (1000 * 1000000)"
    by (simp add: opposite_signs_def)
  show ?thesis
    using solve_for_sn_same_sign_returns_value [OF n s, of "0.01"] n s by blast
qed

text \<open>
  Claim C5 as stated fails at that boundary case: the evaluation is below the target at
  both ends of the bracket, so the signs are not opposite and no midpoint is within the
  tolerance; the solver still returns a number, which the main script accepts.
\<close>

theorem solve_for_sn_no_root_accepted:
  "below_target (calculate_w18 0.1 (- 2.327) 0.5 2 1000) (1000 * 1000000)
   \<and> below_target (calculate_w18 15.0 (- 2.327) 0.5 2 1000) (1000 * 1000000)
   \<and> \<not> opposite_signs (calculate_w18 0.1 (- 2.327) 0.5 2 1000)
         (calculate_w18 15.0 (- 2.327) 0.5 2 1000) (1000 * 1000000)
   \<and> \<not> converged (spec_solve (\<lambda>sn. calculate_w18 sn (- 2.327) 0.5 2 1000)
                    (1000 * 1000000) 0.01 100)
   \<and> solve_for_sn 1000 (- 2.327) 0.5 2 1000 0.01 100 \<noteq> ReturnsNone
   \<and> main_accepts (solve_for_sn 1000 (- 2.327) 0.5 2 1000 0.01 100)"
proof -
  have lo: "below_target (calculate_w18 0.1 (- 2.327) 0.5 2 1000) (1000 * 1000000)"
    using no_root_example_below [of "0.1"] by (auto simp: below_target_def)
  have hi: "below_target (calculate_w18 15.0 (- 2.327) 0.5 2 1000) (1000 * 1000000)"
    using no_root_example_below [of "15.0"] by (auto simp: below_target_def)
  have "\<not> above_target (calculate_w18 0.1 (- 2.327) 0.5 2 1000) (1000 * 1000000)"
    using no_root_example_below [of "0.1"] by auto
  moreover have "\<not> above_target (calculate_w18 15.0 (- 2.327) 0.5 2 1000) (1000 * 1000000)"
    using no_root_example_below [of "15.0"] by auto
  ultimately have s: "\<not> opposite_signs (calculate_w18 0.1 (- 2.327) 0.5 2 1000)
         (calculate_w18 15.0 (- 2.327) 0.5 2 1000) (1000 * 1000000)"
    by (simp add: opposite_signs_def)
  have rej: "\<not> meets_tolerance (calculate_w18 x (- 2.327) 0.5 2 1000) (1000 * 1000000) 0.01"
    if "0.1 \<le> x" "x \<le> 15" for x
    using no_root_example_below [OF that] by (auto simp: meets_tolerance_def np_sub_def)
  have nc: "\<not> converged (spec_solve (\<lambda>sn. calculate_w18 sn (- 2.327) 0.5 2 1000)
                    (1000 * 1000000) 0.01 100)"
    by (rule spec_solve_all_rejected) (use rej in simp)
  have "bisect (Suc 99) (\<lambda>sn. calculate_w18 sn (- 2.327) 0.5 2 1000) (1000 * 1000000)
          0.01 0.1 15.0 None
      = Returns (15.0 - (15.0 - 0.1) / 2 ^ Suc 99)"
    by (rule bisect_all_below) (use no_root_example_below in simp_all)
  then have r: "solve_for_sn 1000 (- 2.327) 0.5 2 1000 0.01 100 = Returns (15.0 - 14.9 / 2 ^ 100)"
    by (simp add: solve_for_sn_def)
  have "main_accepts (Returns (15.0 - 14.9 / 2 ^ 100))"
    by (simp add: main_accepts_def)
  with lo hi s nc r show ?thesis by simp
qed

section \<open>Monotonicity in the structural number\<close>

text \<open>
  The part of the exponent that depends on the structural number, as a function of
  \<open>x = sn + 1\<close> with \<open>L = log10 (delta_psi / 2.7)\<close>, and its derivative.
\<close>

lemma sn_part_deriv:
  fixes L :: real
  assumes "0 < x"
  shows "((\<lambda>x. 9.36 * log 10 x + L / (0.40 + 1094 / x powr 5.19)) has_real_derivative
           (9.36 / (ln 10 * x)
            + L * (5.19 * (1094 / x powr 5.19)) / (x * (0.40 + 1094 / x powr 5.19)\<^sup>2))) (at x)"
proof -
  have p: "0 < x powr 5.19" using assms by simp
  have d: "0.40 + 1094 / x powr 5.19 \<noteq> 0"
    using denominator_pos [OF assms] by simp
  have "x powr (519 / 100) = x powr (419 / 100 + 1)"
    by simp
  also have "\<dots> = x powr (419 / 100) * x"
    using assms by (simp only: powr_add powr_one)
  finally have e: "x powr (419 / 100) = x powr (519 / 100) / x"
    using assms by simp
  show ?thesis
    using assms p d
    apply (auto intro!: derivative_eq_intros simp: e)
    apply (simp add: field_simps power2_eq_square)
    done
qed


text \<open>
  With \<open>u = 1094 / x ^ 5.19\<close> the serviceability term contributes \<open>L\<close> times
  \<open>5.19 u / (0.40 + u)\<^sup>2\<close> to \<open>x\<close> times the derivative; that weight is at most
  \<open>5.19 / 1.6 = 3.24375\<close>, reached at \<open>u = 0.40\<close>, about \<open>sn = 3.6\<close>.
\<close>

lemma serviceability_weight_bounds:
  fixes u :: real
  assumes "0 < u"
  shows "0 < 5.19 * u / (0.40 + u)\<^sup>2" and "5.19 * u / (0.40 + u)\<^sup>2 \<le> 3.24375"
proof -
  have q: "0 < (0.40 + u)\<^sup>2"
    using assms by simp
  show "0 < 5.19 * u / (0.40 + u)\<^sup>2"
    using assms q by simp
  have "0 \<le> (0.40 - u)\<^sup>2"
    by simp
  then have "5.19 * u \<le> 3.24375 * (0.40 + u)\<^sup>2"
    by (simp add: power2_eq_square algebra_simps)
  then show "5.19 * u / (0.40 + u)\<^sup>2 \<le> 3.24375"
    using q by (simp add: pos_divide_le_eq)
qed

lemma sn_part_deriv_pos:
  fixes L :: real
  assumes "0 < x" and "0 < 9.36 + 3.24375 * (ln 10 * L)"
  shows "0 < 9.36 / (ln 10 * x)
            + L * (5.19 * (1094 / x powr 5.19)) / (x * (0.40 + 1094 / x powr 5.19)\<^sup>2)"
proof -
  define u where "u = 1094 / x powr 5.19"
  define K where "K = 5.19 * u / (0.40 + u)\<^sup>2"
  have u: "0 < u"
    using assms(1) by (simp add: u_def)
  have K: "0 < K" "K \<le> 3.24375"
    using serviceability_weight_bounds [OF u] by (simp_all add: K_def)
  have ln10: "0 < ln (10::real)"
    by simp
  have "0 < 9.36 + K * (ln 10 * L)"
  proof (cases "0 \<le> L")
    case True
    then have "0 \<le> K * (ln 10 * L)"
      using K(1) ln10 by simp
    then show ?thesis by (simp add: add_pos_nonneg)
  next
    case False
    then have "ln 10 * L \<le> 0"
      using ln10 by (simp add: mult_nonneg_nonpos)
    then have "3.24375 * (ln 10 * L) \<le> K * (ln 10 * L)"
      using K(2) by (rule mult_right_mono_neg [rotated]) 
    moreover have "(0::real) < 9.36" by simp
    ultimately show ?thesis
      using assms(2) by linarith
  qed
  then have "0 < (9.36 + K * (ln 10 * L)) / (ln 10 * x)"
    using assms(1) ln10 by simp
  also have "(9.36 + K * (ln 10 * L)) / (ln 10 * x) = 9.36 / (ln 10 * x) + L * K / x"
    using assms(1) ln10 by (simp add: field_simps)
  also have "L * K / x = L * (5.19 * u) / (x * (0.40 + u)\<^sup>2)"
    by (simp add: K_def)
  finally show ?thesis
    by (simp add: u_def)
qed

lemma sn_part_strict_mono:
  fixes L :: real
  assumes "0 < a" and "a < b" and "0 < 9.36 + 3.24375 * (ln 10 * L)"
  shows "9.36 * log 10 a + L / (0.40 + 1094 / a powr 5.19)
       < 9.36 * log 10 b + L / (0.40 + 1094 / b powr 5.19)"
proof (rule DERIV_pos_imp_increasing [OF assms(2)])
  fix x assume "a \<le> x" "x \<le> b"
  then have x: "0 < x" using assms(1) by linarith
  show "\<exists>y. ((\<lambda>x. 9.36 * log 10 x + L / (0.40 + 1094 / x powr 5.19)) has_real_derivative y) (at x)
      \<and> 0 < y"
    using sn_part_deriv [OF x, of L] sn_part_deriv_pos [OF x assms(3)] by blast
qed

lemma ln_16875_upper: "ln (16.875::real) \<le> 2.88"
proof -
  have "(135::real) * 400 ^ 128 \<le> 8 * 409 ^ 128"
    by simp
  then have "(16.875::real) \<le> (409 / 400) ^ 128"
    by (simp add: power_divide field_simps)
  also have "(409 / 400 :: real) = 1 + 2.88 / real 128"
    by simp
  finally have "(16.875::real) \<le> (1 + 2.88 / real 128) ^ 128" .
  also have "\<dots> \<le> exp 2.88"
    by (rule exp_ge_one_plus_x_over_n_power_n) simp_all
  finally have "ln (16.875::real) \<le> ln (exp 2.88)"
    by (subst ln_le_cancel_iff) simp_all
  then show ?thesis by simp
qed

lemma serviceability_log_lower:
  assumes "0.16 \<le> delta_psi"
  shows "0 < 9.36 + 3.24375 * (ln 10 * log 10 (delta_psi / 2.7))"
proof -
  have pos: "0 < delta_psi / 2.7"
    using assms by simp
  have "ln 10 * log 10 (delta_psi / 2.7) = ln (delta_psi / 2.7)"
    by (simp add: log_def)
  moreover have "ln (0.16 / 2.7) \<le> ln (delta_psi / 2.7)"
    using assms by (subst ln_le_cancel_iff) simp_all
  moreover have "ln (0.16 / 2.7 :: real) = - ln 16.875"
  proof -
    have "ln (0.16 / 2.7 :: real) = ln (inverse 16.875)" by simp
    also have "\<dots> = - ln 16.875" by (rule ln_inverse)
    finally show ?thesis .
  qed
  ultimately have "- 2.88 \<le> ln 10 * log 10 (delta_psi / 2.7)"
    using ln_16875_upper by linarith
  then have "3.24375 * (- 2.88) \<le> 3.24375 * (ln 10 * log 10 (delta_psi / 2.7))"
    by (intro mult_left_mono) simp_all
  moreover have "(0::real) < 9.36 + 3.24375 * (- 2.88)"
    by simp
  ultimately show ?thesis by linarith
qed

lemma reference_log_w18_strict_mono:
  assumes "0.16 \<le> delta_psi" and "- 1 < sn1" and "sn1 < sn2"
  shows "reference_log_w18 sn1 zr so delta_psi mr < reference_log_w18 sn2 zr so delta_psi mr"
proof -
  have "9.36 * log 10 (sn1 + 1) + log 10 (delta_psi / 2.7) / (0.40 + 1094 / (sn1 + 1) powr 5.19)
      < 9.36 * log 10 (sn2 + 1) + log 10 (delta_psi / 2.7) / (0.40 + 1094 / (sn2 + 1) powr 5.19)"
    using assms(2,3) by (intro sn_part_strict_mono serviceability_log_lower [OF assms(1)]) simp_all
  then show ?thesis
    unfolding reference_log_w18_def by linarith
qed

text \<open>
  Claim C4, as the code behaves. For every \<open>zr\<close>, \<open>so\<close>, \<open>mr > 0\<close> and every serviceability
  loss \<open>delta_psi\<close> of at least 0.16, the evaluation, and with it the evaluation minus any
  target, is strictly increasing in the structural number over \<open>[0.1, 15.0]\<close>.
\<close>

theorem calculate_w18_strictly_increasing:
  assumes "0.16 \<le> delta_psi" and "0 < mr" and "0.1 \<le> sn1" and "sn1 < sn2" and "sn2 \<le> 15"
  shows "\<exists>w1 w2. calculate_w18 sn1 zr so delta_psi mr = Val (Fin w1)
     \<and> calculate_w18 sn2 zr so delta_psi mr = Val (Fin w2)
     \<and> w1 < w2 \<and> w1 - target < w2 - target"
proof -
  have d: "0 < delta_psi" using assms(1) by simp
  have s1: "- 1 < sn1" and s2: "- 1 < sn2" using assms(3,4) by simp_all
  have "reference_w18 sn1 zr so delta_psi mr < reference_w18 sn2 zr so delta_psi mr"
    using reference_log_w18_strict_mono [OF assms(1) s1 assms(4)]
    by (simp add: reference_w18_def)
  then show ?thesis
    using calculate_w18_in_domain [OF s1 d assms(2)] calculate_w18_in_domain [OF s2 d assms(2)]
    by simp
qed


lemma powr_upper:
  fixes b c e :: real
  assumes "b ^ p \<le> c ^ q" and "1 < b" and "0 < c" and "e * real q \<le> real p" and "0 < q"
  shows "b powr e \<le> c"
proof -
  have "real p = log b (b ^ p)"
    using assms(2) by (simp add: log_nat_power)
  also have "\<dots> \<le> log b (c ^ q)"
    using assms(1,2,3) by (subst log_le_cancel_iff) simp_all
  also have "\<dots> = real q * log b c"
    using assms(3) by (simp add: log_nat_power)
  finally have "e * real q \<le> log b c * real q"
    using assms(4) by (simp add: mult.commute)
  then have "e \<le> log b c"
    using assms(5) by simp
  then show ?thesis
    using assms(2,3) by (simp add: powr_le_iff)
qed

lemma powr_lower:
  fixes b c e :: real
  assumes "c ^ q \<le> b ^ p" and "1 < b" and "0 < c" and "real p \<le> e * real q" and "0 < q"
  shows "c \<le> b powr e"
proof -
  have "real q * log b c = log b (c ^ q)"
    using assms(3) by (simp add: log_nat_power)
  also have "\<dots> \<le> log b (b ^ p)"
    using assms(1,2,3) by (subst log_le_cancel_iff) simp_all
  also have "\<dots> = real p"
    using assms(2) by (simp add: log_nat_power)
  finally have "log b c * real q \<le> e * real q"
    using assms(4) by (simp add: mult.commute)
  then have "log b c \<le> e"
    using assms(5) by simp
  then show ?thesis
    using assms(2,3) by (simp add: le_powr_iff)
qed

lemma log10_upper:
  fixes c :: real
  assumes "c ^ q \<le> 10 ^ p" and "0 < c" and "0 < q"
  shows "log 10 c \<le> real p / real q"
proof -
  have "real q * log 10 c = log 10 (c ^ q)"
    using assms(2) by (simp add: log_nat_power)
  also have "\<dots> \<le> log 10 (10 ^ p)"
    using assms(1,2) by (subst log_le_cancel_iff) simp_all
  also have "\<dots> = real p"
    by (simp add: log_nat_power)
  finally show ?thesis
    using assms(3) by (simp add: pos_le_divide_eq mult.commute)
qed

lemma log10_lower:
  fixes c :: real
  assumes "10 ^ p \<le> c ^ q" and "0 < c" and "0 < q"
  shows "real p / real q \<le> log 10 c"
proof -
  have "real p = log 10 ((10::real) ^ p)"
    by (simp add: log_nat_power)
  also have "\<dots> \<le> log 10 (c ^ q)"
    using assms(1,2) by (subst log_le_cancel_iff) simp_all
  also have "\<dots> = real q * log 10 c"
    using assms(2) by (simp add: log_nat_power)
  finally show ?thesis
    using assms(3) by (simp add: pos_divide_le_eq mult.commute)
qed

text \<open>
  A serviceability loss of 0.1 (initial 3.0, terminal 2.9): the exponent at \<open>sn = 4\<close> is
  below the exponent at \<open>sn = 3\<close>.
\<close>

lemma small_loss_example:
  "reference_log_w18 4 zr so 0.1 mr < reference_log_w18 3 zr so 0.1 mr"
proof -
  have "log 10 (5 / 4 :: real) \<le> real 39 / real 400"
    by (rule log10_upper) (simp_all add: power_divide)
  moreover have "log 10 (5 / 4 :: real) = log 10 5 - log 10 4"
    by (rule log_divide_pos) simp_all
  ultimately have l54: "9.36 * (log 10 (5::real) - log 10 4) \<le> 0.9126"
    by simp
  have u27: "log 10 (27::real) \<le> 1.44"
    using log10_upper [of 27 100 144] by simp
  have l27: "1.43 \<le> log 10 (27::real)"
    using log10_lower [of 143 27 100] by simp
  have L: "log 10 (1 / 27 :: real) = - log 10 27"
    by (rule log_recip)
  have p4: "(4::real) powr 5.19 \<le> 1340"
    by (rule powr_upper [where p = 519 and q = 100]) simp_all
  have p5: "(4200::real) \<le> 5 powr 5.19"
    by (rule powr_lower [where p = 519 and q = 100]) simp_all
  have "1094 / 1340 \<le> 1094 / (4::real) powr 5.19"
    using p4 by (intro divide_left_mono) simp_all
  then have d4: "1.2164 \<le> 0.40 + 1094 / (4::real) powr 5.19"
    by simp
  have "1094 / (5::real) powr 5.19 \<le> 1094 / 4200"
    using p5 by (intro divide_left_mono) simp_all
  then have d5: "0.40 + 1094 / (5::real) powr 5.19 \<le> 0.6605"
    by simp
  have d5pos: "0 < 0.40 + 1094 / (5::real) powr 5.19"
    by (rule denominator_pos) simp
  have "log 10 27 / (0.40 + 1094 / (4::real) powr 5.19) \<le> 1.44 / 1.2164"
    using u27 d4 l27 by (intro frac_le) simp_all
  then have q4: "log 10 27 / (0.40 + 1094 / (4::real) powr 5.19) \<le> 1.184"
    by simp
  have "1.43 / 0.6605 \<le> log 10 27 / (0.40 + 1094 / (5::real) powr 5.19)"
    using l27 d5 d5pos by (intro frac_le) simp_all
  then have q5: "2.165 \<le> log 10 27 / (0.40 + 1094 / (5::real) powr 5.19)"
    by simp
  have "reference_log_w18 3 zr so 0.1 mr - reference_log_w18 4 zr so 0.1 mr
      = log 10 27 / (0.40 + 1094 / (5::real) powr 5.19)
        - log 10 27 / (0.40 + 1094 / (4::real) powr 5.19)
        - 9.36 * (log 10 (5::real) - log 10 4)"
    unfolding reference_log_w18_def by (simp add: L algebra_simps)
  moreover have "(0::real) < 2.165 - 1.184 - 0.9126"
    by simp
  ultimately show ?thesis
    using q4 q5 l54 by linarith
qed

text \<open>
  Claim C4 as stated fails for a small serviceability loss: with \<open>delta_psi = 0.1\<close> and
  the other inputs at their defaults, the evaluation at \<open>sn = 4\<close> is below the evaluation
  at \<open>sn = 3\<close>.
\<close>

theorem calculate_w18_not_increasing:
  "calculate_w18 3 (- 1.645) 0.45 0.1 7500 = Val (Fin (reference_w18 3 (- 1.645) 0.45 0.1 7500))
   \<and> calculate_w18 4 (- 1.645) 0.45 0.1 7500 = Val (Fin (reference_w18 4 (- 1.645) 0.45 0.1 7500))
   \<and> reference_w18 4 (- 1.645) 0.45 0.1 7500 < reference_w18 3 (- 1.645) 0.45 0.1 7500"
proof -
  have "reference_w18 4 (- 1.645) 0.45 0.1 7500 < reference_w18 3 (- 1.645) 0.45 0.1 7500"
    using small_loss_example [of "- 1.645" "0.45" 7500] by (simp add: reference_w18_def)
  moreover have "calculate_w18 3 (- 1.645) 0.45 0.1 7500
      = Val (Fin (reference_w18 3 (- 1.645) 0.45 0.1 7500))"
    by (intro calculate_w18_in_domain) simp_all
  moreover have "calculate_w18 4 (- 1.645) 0.45 0.1 7500
      = Val (Fin (reference_w18 4 (- 1.645) 0.45 0.1 7500))"
    by (intro calculate_w18_in_domain) simp_all
  ultimately show ?thesis by blast
qed

text \<open>Claim C4 as amended, at the default inputs between \<open>sn = 3\<close> and \<open>sn = 5\<close>.\<close>

theorem calculate_w18_strictly_increasing_witness:
  "(0.16::real) \<le> 2 \<and> (0::real) < 7500 \<and> (0.1::real) \<le> 3 \<and> (3::real) < 5 \<and> (5::real) \<le> 15
   \<and> (\<exists>w1 w2. calculate_w18 3 (- 1.645) 0.45 2 7500 = Val (Fin w1)
        \<and> calculate_w18 5 (- 1.645) 0.45 2 7500 = Val (Fin w2)
        \<and> w1 < w2 \<and> w1 - 5000000 < w2 - 5000000)"
  using calculate_w18_strictly_increasing [of 2 7500 3 5 "- 1.645" "0.45" 5000000] by simp

end
